theory Spec2Isabelle
  imports Complex_Main "HOL-Library.Char_ord" "HOL-Library.List_Lexorder"
begin

section \<open>Strings\<close>

text \<open>
  A Python \<open>str\<close> is modelled as a \<open>string\<close> (a list of 8-bit characters), read as
  the UTF-8 encoding of the text.  The order on \<open>string\<close> is the lexicographic order
  on character codes (a proper prefix is smaller), which is the order of Python's
  \<open>sorted\<close> on \<open>str\<close>: UTF-8 keeps the order of code points.  With this reading
  \<open>s.encode('utf-8')\<close> is the identity.
\<close>

text \<open>\<open>s.split(c)\<close> for a one-character separator: never the empty list.\<close>

function split_on :: "char \<Rightarrow> string \<Rightarrow> string list" where
  "split_on c s =
     (case dropWhile (\<lambda>x. x \<noteq> c) s of
        [] \<Rightarrow> [takeWhile (\<lambda>x. x \<noteq> c) s]
      | _ # rest \<Rightarrow> takeWhile (\<lambda>x. x \<noteq> c) s # split_on c rest)"
  by pat_completeness auto
termination
proof (relation "measure (\<lambda>(c, s). length s)")
  show "wf (measure (\<lambda>(c, s). length s))" by simp
next
  fix c :: char and s :: string and x rest
  assume "dropWhile (\<lambda>x. x \<noteq> c) s = x # rest"
  then have "length (x # rest) \<le> length s"
    using length_dropWhile_le [of "\<lambda>x. x \<noteq> c" s] by simp
  then show "((c, rest), (c, s)) \<in> measure (\<lambda>(c, s). length s)" by simp
qed

declare split_on.simps [simp del]

text \<open>\<open>sep.join(xs)\<close>.\<close>

fun join :: "string \<Rightarrow> string list \<Rightarrow> string" where
  "join sep [] = []"
| "join sep [x] = x"
| "join sep (x # y # ys) = x @ sep @ join sep (y # ys)"

section \<open>The signed request builder (\<open>aiswei_api.py\<close>)\<close>

record credentials =
  app_key :: string
  app_secret :: string
  api_key :: string
  token :: string
  sn :: string

definition base_url :: string where
  "base_url = ''https://eu-api-genergal.aisweicloud.com''"

definition http_method :: string where
  "http_method = ''GET''"

definition content_type :: string where
  "content_type = ''application/json; charset=UTF-8''"

definition accept :: string where
  "accept = ''application/json''"

text \<open>The line feed of the f-string's \<open>\n\<close>.\<close>

definition nl :: string where
  "nl = [CHR 0x0A]"

text \<open>Lines 55 to 57 of \<open>_make_request\<close>: the three authentication parameters.\<close>

definition append_auth :: "credentials \<Rightarrow> string \<Rightarrow> string" where
  "append_auth self endpoint =
     (let endpoint = endpoint @ (if CHR ''?'' \<in> set endpoint then ''&'' else ''?'')
                       @ ''apikey='' @ api_key self;
          endpoint = endpoint @ ''&token='' @ token self;
          endpoint = endpoint @ ''&isnos='' @ sn self
      in endpoint)"

text \<open>Lines 60 to 63 of \<open>_make_request\<close>: the parameters sorted.\<close>

definition canonicalize :: "string \<Rightarrow> string" where
  "canonicalize endpoint =
     (let s1 = split_on CHR ''?'' endpoint
      in if length s1 > 1
         then (let s2 = sort (split_on CHR ''&'' (s1 ! 1))
               in s1 ! 0 @ ''?'' @ join ''&'' s2)
         else endpoint)"

text \<open>
  What \<open>_make_request\<close> has built when it calls \<open>requests.get\<close>: the URL, the
  headers (a dict, in insertion order) and the string that was signed.  HMAC-SHA256
  (\<open>hmac.new(key, msg, hashlib.sha256).digest()\<close>) and \<open>base64.b64encode\<close> are
  library functions and are parameters of the model, \<open>hmac_sha256 key msg\<close> and
  \<open>b64encode\<close>.
\<close>

record prepared_request =
  url :: string
  headers :: "(string \<times> string) list"
  string_to_sign :: string

definition prepare_request ::
  "(string \<Rightarrow> string \<Rightarrow> string) \<Rightarrow> (string \<Rightarrow> string) \<Rightarrow> credentials \<Rightarrow> string
     \<Rightarrow> prepared_request" where
  "prepare_request hmac_sha256 b64encode self endpoint =
     (let endpoint = canonicalize (append_auth self endpoint);
          headers = [(''User-Agent'', ''app 1.0''),
                     (''Content-Type'', content_type),
                     (''Accept'', accept),
                     (''X-Ca-Signature-Headers'', ''X-Ca-Key''),
                     (''X-Ca-Key'', app_key self)];
          string_to_sign = http_method @ nl @ accept @ nl @ nl @ content_type @ nl @ nl
                             @ ''X-Ca-Key:'' @ app_key self @ nl @ endpoint;
          signature = b64encode (hmac_sha256 (app_secret self) string_to_sign);
          headers = headers @ [(''X-Ca-Signature'', signature)]
      in \<lparr>url = base_url @ endpoint, headers = headers, string_to_sign = string_to_sign\<rparr>)"

subsection \<open>JSON values and Python numbers\<close>

text \<open>
  A Python \<open>float\<close> is modelled as an exact rational or one of the three special
  values; rounding to 53 bits and the sign of zero are not modelled.  A value parsed by
  \<open>response.json()\<close> is \<open>None\<close>, a \<open>bool\<close>, an \<open>int\<close>, a \<open>float\<close>, a \<open>str\<close>,
  a \<open>list\<close> or a \<open>dict\<close>; a dict is an association list read with \<open>map_of\<close>.
\<close>

datatype pyfloat = Finite rat | PosInf | NegInf | NaN

datatype pynum = PInt int | PFloat pyfloat

datatype json =
    JNull
  | JBool bool
  | JNum pynum
  | JStr string
  | JList "json list"
  | JDict "(string \<times> json) list"

text \<open>
  The exceptions of the model.  \<open>OverflowError\<close> and \<open>AttributeError\<close> carry
  \<open>str(e)\<close>.
\<close>

datatype py_exn =
    ValueError
  | TypeError
  | IndexError
  | OverflowError string
  | AttributeError string

subsection \<open>The HTTP exchange\<close>

text \<open>
  \<open>requests.get\<close> either returns a response or raises a
  \<open>requests.exceptions.RequestException\<close> (with its \<open>str(e)\<close>).  Of a response the
  code reads \<open>status_code\<close>, \<open>text\<close>, \<open>headers\<close> and \<open>json()\<close>; \<open>json_body\<close> is
  \<open>None\<close> when \<open>response.json()\<close> raises.
\<close>

record response =
  status_code :: int
  resp_text :: string
  resp_headers :: "(string \<times> string) list"
  json_body :: "json option"

datatype http_outcome = Responded response | RequestException string

text \<open>
  \<open>_make_request\<close>, with the network as the parameter \<open>requests_get\<close>.  The
  \<open>print\<close> calls of the error branches are not modelled.
\<close>

definition make_request ::
  "(string \<Rightarrow> string \<Rightarrow> string) \<Rightarrow> (string \<Rightarrow> string)
     \<Rightarrow> (string \<Rightarrow> (string \<times> string) list \<Rightarrow> http_outcome)
     \<Rightarrow> credentials \<Rightarrow> string \<Rightarrow> json" where
  "make_request hmac_sha256 b64encode requests_get self endpoint =
     (let req = prepare_request hmac_sha256 b64encode self endpoint
      in case requests_get (url req) (headers req) of
           Responded response \<Rightarrow>
             if status_code response = 200
             then (case json_body response of
                     Some v \<Rightarrow> v
                   | None \<Rightarrow> JDict [(''error'', JStr ''Failed to parse JSON response''),
                                    (''status'', JNum (PInt (status_code response)))])
             else JDict [(''error'', JStr (resp_text response)),
                         (''status'', JNum (PInt (status_code response))),
                         (''headers'', JDict (map (\<lambda>(k, v). (k, JStr v)) (resp_headers response)))]
         | RequestException e \<Rightarrow> JDict [(''error'', JStr e)])"

subsection \<open>The operation catalog\<close>

text \<open>
  The methods of \<open>AisweiSolarAPI\<close> after \<open>_make_request\<close>, in the order of the
  source (API List 3.1 to 3.14).
\<close>

datatype operation =
    GetPlanListPro
  | GetPlantOverviewPro
  | GetPlantOutputPro
  | GetPlantEventPro
  | GetDeviceListPro
  | GetLocationPro
  | GetLastTsDataPro
  | GetInverterDataPagePro
  | GetInverterETodayPro
  | GetInverterHisErrorPagePro
  | GetInverterCurrentErrorPro
  | GetInverterOverviewPro
  | GetInverterRecoverStatusPro
  | CreatestationPro

definition catalog :: "operation list" where
  "catalog = [GetPlanListPro, GetPlantOverviewPro, GetPlantOutputPro, GetPlantEventPro,
              GetDeviceListPro, GetLocationPro, GetLastTsDataPro, GetInverterDataPagePro,
              GetInverterETodayPro, GetInverterHisErrorPagePro, GetInverterCurrentErrorPro,
              GetInverterOverviewPro, GetInverterRecoverStatusPro, CreatestationPro]"

text \<open>The method's name.\<close>

fun op_name :: "operation \<Rightarrow> string" where
  "op_name GetPlanListPro = ''getPlanListPro''"
| "op_name GetPlantOverviewPro = ''getPlantOverviewPro''"
| "op_name GetPlantOutputPro = ''getPlantOutputPro''"
| "op_name GetPlantEventPro = ''getPlantEventPro''"
| "op_name GetDeviceListPro = ''getDeviceListPro''"
| "op_name GetLocationPro = ''getLocationPro''"
| "op_name GetLastTsDataPro = ''getLastTsDataPro''"
| "op_name GetInverterDataPagePro = ''getInverterDataPagePro''"
| "op_name GetInverterETodayPro = ''getInverterETodayPro''"
| "op_name GetInverterHisErrorPagePro = ''getInverterHisErrorPagePro''"
| "op_name GetInverterCurrentErrorPro = ''getInverterCurrentErrorPro''"
| "op_name GetInverterOverviewPro = ''getInverterOverviewPro''"
| "op_name GetInverterRecoverStatusPro = ''getInverterRecoverStatusPro''"
| "op_name CreatestationPro = ''createstationPro''"

text \<open>
  The method's local \<open>endpoint\<close>; \<open>date\<close> is
  \<open>datetime.now().strftime("%Y-%m-%d")\<close>.
\<close>

fun op_endpoint :: "string \<Rightarrow> operation \<Rightarrow> string" where
  "op_endpoint date GetPlanListPro = ''/pro/getPlanListPro''"
| "op_endpoint date GetPlantOverviewPro = ''/pro/getPlantOverviewPro''"
| "op_endpoint date GetPlantOutputPro = ''/pro/getPlantOutputPro?period=bydays&date='' @ date"
| "op_endpoint date GetPlantEventPro = ''/pro/getPlantEventPro''"
| "op_endpoint date GetDeviceListPro = ''/pro/getDeviceListPro''"
| "op_endpoint date GetLocationPro = ''/pro/getLocationPro''"
| "op_endpoint date GetLastTsDataPro = ''/pro/getLastTsDataPro''"
| "op_endpoint date GetInverterDataPagePro = ''/pro/getInverterDataPagePro''"
| "op_endpoint date GetInverterETodayPro = ''/pro/getInverterETodayPro?date='' @ date"
| "op_endpoint date GetInverterHisErrorPagePro = ''/pro/getInverterHisErrorPagePro''"
| "op_endpoint date GetInverterCurrentErrorPro = ''/pro/getInverterCurrentErrorPro''"
| "op_endpoint date GetInverterOverviewPro = ''/pro/getInverterOverviewPro''"
| "op_endpoint date GetInverterRecoverStatusPro = ''/pro/getInverterRecoverStatusPro''"
| "op_endpoint date CreatestationPro = ''/pro/createstationPro''"


text \<open>
  The catalog read as a table: the operation is a read when its name starts with
  \<open>get\<close> and a create when it starts with \<open>create\<close>; its path is the endpoint up to
  the query string; it adds parameters when its endpoint has a query string.
\<close>

definition is_read :: "operation \<Rightarrow> bool" where
  "is_read operation = (take 3 (op_name operation) = ''get'')"

definition is_create :: "operation \<Rightarrow> bool" where
  "is_create operation = (take 6 (op_name operation) = ''create'')"

definition op_path :: "string \<Rightarrow> operation \<Rightarrow> string" where
  "op_path date operation = takeWhile (\<lambda>x. x \<noteq> CHR ''?'') (op_endpoint date operation)"

definition adds_params :: "string \<Rightarrow> operation \<Rightarrow> bool" where
  "adds_params date operation = (CHR ''?'' \<in> set (op_endpoint date operation))"

section \<open>The telemetry normalizer (\<open>openhab_solplanet.py\<close>)\<close>

subsection \<open>Python's \<open>float\<close> and \<open>int\<close> on a JSON value\<close>

text \<open>
  \<open>float(s)\<close> and \<open>int(s)\<close> on a string, for ASCII input: surrounding white space is
  stripped, a sign may follow, digits may be grouped by single underscores; \<open>float\<close>
  also reads a fraction, an exponent, and \<open>inf\<close>, \<open>infinity\<close> and \<open>nan\<close> in any
  case.  \<open>None\<close> is Python's \<open>ValueError\<close>.  Digits and white space beyond ASCII,
  and the limit on the number of digits of \<open>int\<close>, are not modelled.
\<close>

definition is_space :: "char \<Rightarrow> bool" where
  "is_space c = (let n = (of_char c :: nat) in (9 \<le> n \<and> n \<le> 13) \<or> (28 \<le> n \<and> n \<le> 32))"

definition strip :: "string \<Rightarrow> string" where
  "strip s = rev (dropWhile is_space (rev (dropWhile is_space s)))"

definition is_digit :: "char \<Rightarrow> bool" where
  "is_digit c = (let n = (of_char c :: nat) in 48 \<le> n \<and> n \<le> 57)"

definition digit_val :: "char \<Rightarrow> nat" where
  "digit_val c = of_char c - 48"

definition lower :: "char \<Rightarrow> char" where
  "lower c = (let n = (of_char c :: nat) in if 65 \<le> n \<and> n \<le> 90 then char_of (n + 32) else c)"

text \<open>The digits of \<open>digit (["_"] digit)*\<close>, or \<open>None\<close>.\<close>

fun digitpart :: "string \<Rightarrow> nat list option" where
  "digitpart [] = None"
| "digitpart [c] = (if is_digit c then Some [digit_val c] else None)"
| "digitpart (c # d # cs) =
     (if is_digit c
      then (if d = CHR ''_'' then map_option (Cons (digit_val c)) (digitpart cs)
            else map_option (Cons (digit_val c)) (digitpart (d # cs)))
      else None)"

definition nat_of_digits :: "nat list \<Rightarrow> nat" where
  "nat_of_digits ds = foldl (\<lambda>a d. 10 * a + d) 0 ds"

text \<open>An optional sign, split off: the sign's factor and the rest.\<close>

fun split_sign :: "string \<Rightarrow> int \<times> string" where
  "split_sign (c # cs) =
     (if c = CHR ''+'' then (1, cs) else if c = CHR ''-'' then (- 1, cs) else (1, c # cs))"
| "split_sign [] = (1, [])"

definition py_int_of_str :: "string \<Rightarrow> int option" where
  "py_int_of_str s =
     (case split_sign (strip s) of
        (sg, body) \<Rightarrow> map_option (\<lambda>ds. sg * int (nat_of_digits ds)) (digitpart body))"

text \<open>
  The least magnitude that does not round to a finite double: halfway between the
  largest double and \<open>2 ^ 1024\<close>.
\<close>

definition float_overflow :: rat where
  "float_overflow = 2 ^ 1024 - 2 ^ 970"

definition round_to_float :: "rat \<Rightarrow> pyfloat" where
  "round_to_float r =
     (if float_overflow \<le> r then PosInf else if r \<le> - float_overflow then NegInf else Finite r)"

text \<open>The mantissa \<open>digitpart ["." [digitpart]] | "." digitpart\<close>.\<close>

definition mantissa :: "string \<Rightarrow> rat option" where
  "mantissa m =
     (let ip = takeWhile (\<lambda>x. x \<noteq> CHR ''.'') m;
          rest = dropWhile (\<lambda>x. x \<noteq> CHR ''.'') m
      in if rest = [] then map_option (\<lambda>ds. of_nat (nat_of_digits ds)) (digitpart ip)
         else (let fp = tl rest;
                   i = (if ip = [] then Some [] else digitpart ip);
                   f = (if fp = [] then Some [] else digitpart fp)
               in if ip = [] \<and> fp = [] then None
                  else (case (i, f) of
                          (Some ids, Some fds) \<Rightarrow>
                            Some (of_nat (nat_of_digits ids)
                                  + of_nat (nat_of_digits fds) / 10 ^ length fds)
                        | _ \<Rightarrow> None)))"

text \<open>The exponent after \<open>e\<close> or \<open>E\<close>: \<open>[sign] digitpart\<close>.\<close>

definition exponent :: "string \<Rightarrow> int option" where
  "exponent e =
     (case split_sign e of
        (sg, body) \<Rightarrow> map_option (\<lambda>ds. sg * int (nat_of_digits ds)) (digitpart body))"

definition py_float_of_str :: "string \<Rightarrow> pyfloat option" where
  "py_float_of_str s =
     (case split_sign (strip s) of
        (sg, body) \<Rightarrow>
          if map lower body = ''inf'' \<or> map lower body = ''infinity''
          then Some (if sg = 1 then PosInf else NegInf)
          else if map lower body = ''nan'' then Some NaN
          else (let is_e = (\<lambda>x. x = CHR ''e'' \<or> x = CHR ''E'');
                    m = takeWhile (\<lambda>x. \<not> is_e x) body;
                    rest = dropWhile (\<lambda>x. \<not> is_e x) body;
                    ex = (if rest = [] then Some 0 else exponent (tl rest))
                in case (mantissa m, ex) of
                     (Some r, Some k) \<Rightarrow>
                       Some (round_to_float
                               (of_int sg * r * (if 0 \<le> k then 10 ^ nat k else 1 / 10 ^ nat (- k))))
                   | _ \<Rightarrow> None))"

text \<open>\<open>type(v).__name__\<close>, for the message of an \<open>AttributeError\<close>.\<close>

fun type_name :: "json \<Rightarrow> string" where
  "type_name JNull = ''NoneType''"
| "type_name (JBool b) = ''bool''"
| "type_name (JNum (PInt n)) = ''int''"
| "type_name (JNum (PFloat f)) = ''float''"
| "type_name (JStr s) = ''str''"
| "type_name (JList xs) = ''list''"
| "type_name (JDict d) = ''dict''"

definition no_attribute_get :: "json \<Rightarrow> py_exn" where
  "no_attribute_get v = AttributeError ([CHR 0x27] @ type_name v @ [CHR 0x27] @ '' object has no attribute '' @ [CHR 0x27] @ ''get'' @ [CHR 0x27])"

text \<open>\<open>float(value)\<close>.\<close>

fun py_float :: "json \<Rightarrow> py_exn + pyfloat" where
  "py_float JNull = Inl TypeError"
| "py_float (JBool b) = Inr (Finite (if b then 1 else 0))"
| "py_float (JNum (PInt n)) =
     (if float_overflow \<le> \<bar>of_int n\<bar>
      then Inl (OverflowError ''int too large to convert to float'')
      else Inr (Finite (of_int n)))"
| "py_float (JNum (PFloat f)) = Inr f"
| "py_float (JStr s) = (case py_float_of_str s of None \<Rightarrow> Inl ValueError | Some f \<Rightarrow> Inr f)"
| "py_float (JList xs) = Inl TypeError"
| "py_float (JDict d) = Inl TypeError"

text \<open>\<open>int(value)\<close>: a float is truncated towards zero.\<close>

definition trunc :: "rat \<Rightarrow> int" where
  "trunc r = (if 0 \<le> r then \<lfloor>r\<rfloor> else \<lceil>r\<rceil>)"

fun py_int :: "json \<Rightarrow> py_exn + int" where
  "py_int JNull = Inl TypeError"
| "py_int (JBool b) = Inr (if b then 1 else 0)"
| "py_int (JNum (PInt n)) = Inr n"
| "py_int (JNum (PFloat (Finite r))) = Inr (trunc r)"
| "py_int (JNum (PFloat PosInf)) = Inl (OverflowError ''cannot convert float infinity to integer'')"
| "py_int (JNum (PFloat NegInf)) = Inl (OverflowError ''cannot convert float infinity to integer'')"
| "py_int (JNum (PFloat NaN)) = Inl ValueError"
| "py_int (JStr s) = (case py_int_of_str s of None \<Rightarrow> Inl ValueError | Some n \<Rightarrow> Inr n)"
| "py_int (JList xs) = Inl TypeError"
| "py_int (JDict d) = Inl TypeError"

text \<open>\<open>x / c\<close> for a number \<open>x\<close> and an \<open>int\<close> constant \<open>c\<close>: always a float.\<close>

fun num_div :: "pynum \<Rightarrow> int \<Rightarrow> py_exn + pynum" where
  "num_div (PFloat (Finite r)) c = Inr (PFloat (round_to_float (r / of_int c)))"
| "num_div (PFloat f) c = Inr (PFloat f)"
| "num_div (PInt n) c =
     (if float_overflow \<le> \<bar>of_int n / of_int c\<bar>
      then Inl (OverflowError ''integer division result too large for a float'')
      else Inr (PFloat (Finite (of_int n / of_int c))))"

text \<open>Truth values: \<open>if pac\<close>, \<open>if not devices\<close>.\<close>

fun truthy_num :: "pynum \<Rightarrow> bool" where
  "truthy_num (PInt n) = (n \<noteq> 0)"
| "truthy_num (PFloat (Finite r)) = (r \<noteq> 0)"
| "truthy_num (PFloat f) = True"

fun truthy :: "json \<Rightarrow> bool" where
  "truthy JNull = False"
| "truthy (JBool b) = b"
| "truthy (JNum n) = truthy_num n"
| "truthy (JStr s) = (s \<noteq> [])"
| "truthy (JList xs) = (xs \<noteq> [])"
| "truthy (JDict d) = (d \<noteq> [])"

text \<open>\<open>v == k\<close> for an \<open>int\<close> literal \<open>k\<close>, and \<open>v == t\<close> for a \<open>str\<close> literal.\<close>

fun num_eq_int :: "pynum \<Rightarrow> int \<Rightarrow> bool" where
  "num_eq_int (PInt n) k = (n = k)"
| "num_eq_int (PFloat (Finite r)) k = (r = of_int k)"
| "num_eq_int (PFloat f) k = False"

fun py_eq_int :: "json \<Rightarrow> int \<Rightarrow> bool" where
  "py_eq_int (JNum n) k = num_eq_int n k"
| "py_eq_int (JBool b) k = ((if b then 1 else 0) = k)"
| "py_eq_int v k = False"

fun py_eq_str :: "json \<Rightarrow> string \<Rightarrow> bool" where
  "py_eq_str (JStr s) t = (s = t)"
| "py_eq_str v t = False"

text \<open>\<open>d.get(k, default)\<close> and \<open>k in d\<close>.\<close>

definition dict_get :: "(string \<times> json) list \<Rightarrow> string \<Rightarrow> json \<Rightarrow> json" where
  "dict_get d k dflt = (case map_of d k of None \<Rightarrow> dflt | Some v \<Rightarrow> v)"

definition dict_has :: "(string \<times> json) list \<Rightarrow> string \<Rightarrow> bool" where
  "dict_has d k = (map_of d k \<noteq> None)"

subsection \<open>\<open>is_api_success\<close> and \<open>extract_live_data\<close>\<close>

text \<open>
  \<open>response.get\<close> raises \<open>AttributeError\<close> on a value that is not a dict
  (\<open>response.json()\<close> may be any JSON value).
\<close>

fun is_api_success :: "json \<Rightarrow> py_exn + bool" where
  "is_api_success (JDict response) =
     Inr (py_eq_int (dict_get response ''status'' JNull) 200 \<and>
          py_eq_str (dict_get response ''info'' JNull) ''success'' \<and>
          dict_has response ''data'')"
| "is_api_success v = Inl (no_attribute_get v)"

text \<open>
  The two local helpers of \<open>extract_live_data\<close>: only \<open>ValueError\<close> and
  \<open>TypeError\<close> are caught.
\<close>

definition safe_float :: "json \<Rightarrow> pynum \<Rightarrow> py_exn + pynum" where
  "safe_float v dflt =
     (if v \<noteq> JNull
      then (case py_float v of
              Inr f \<Rightarrow> Inr (PFloat f)
            | Inl ValueError \<Rightarrow> Inr dflt
            | Inl TypeError \<Rightarrow> Inr dflt
            | Inl e \<Rightarrow> Inl e)
      else Inr dflt)"

definition safe_int :: "json \<Rightarrow> pynum \<Rightarrow> py_exn + pynum" where
  "safe_int v dflt =
     (if v \<noteq> JNull
      then (case py_int v of
              Inr n \<Rightarrow> Inr (PInt n)
            | Inl ValueError \<Rightarrow> Inr dflt
            | Inl TypeError \<Rightarrow> Inr dflt
            | Inl e \<Rightarrow> Inl e)
      else Inr dflt)"

text \<open>\<open>devices[0] if isinstance(devices, list) else devices\<close>.\<close>

fun first_device :: "json \<Rightarrow> py_exn + json" where
  "first_device (JList []) = Inl IndexError"
| "first_device (JList (d # ds)) = Inr d"
| "first_device v = Inr v"

text \<open>
  The entries of the returned dict after \<open>"pac"\<close>, in the order of the source: the
  key (which is also the raw field read) and the divisor, \<open>None\<close> where the source
  does not divide.
\<close>

definition numeric_fields :: "(string \<times> int option) list" where
  "numeric_fields =
     [(''prc'', None), (''sac'', None), (''pf'', Some 100),
      (''hto'', None), (''etd'', Some 10), (''eto'', Some 10),
      (''v1'', Some 10), (''v2'', Some 10), (''v3'', Some 10),
      (''i1'', Some 100), (''i2'', Some 100), (''i3'', Some 100),
      (''s1'', Some 10), (''s2'', Some 10), (''s3'', Some 10),
      (''cf'', Some 10), (''tu'', Some 10), (''tv'', Some 10), (''tw'', Some 10),
      (''cb'', Some 10),
      (''bv'', Some 10),
      (''va1'', Some 10), (''va2'', Some 10), (''va3'', Some 10),
      (''ia1'', Some 10), (''ia2'', Some 10), (''ia3'', Some 10),
      (''fac'', Some 100),
      (''er'', None), (''wn0'', None),
      (''bat0'', None), (''bat1'', Some 10), (''bat2'', Some 10), (''bat3'', None),
      (''bat4'', None), (''bat5'', None), (''bat6'', Some 100), (''bat7'', Some 10),
      (''bat8'', None), (''bat9'', Some 10), (''bat10'', None), (''bat11'', None),
      (''bat12'', Some 10), (''bat13'', Some 10), (''bat14'', None), (''bat15'', Some 10),
      (''bat16'', Some 10), (''bat17'', Some 10), (''bat18'', Some 10),
      (''meterPow'', None), (''meterIed'', None), (''meterOed'', None),
      (''meterIet'', None), (''meterOet'', None),
      (''powerRatio'', None), (''csq'', None)]"

text \<open>One entry: \<open>safe_float(device.get(k, 0))\<close>, divided where the source divides.\<close>

definition field_value :: "(string \<times> json) list \<Rightarrow> string \<Rightarrow> int option \<Rightarrow> py_exn + pynum" where
  "field_value device k divisor =
     (case safe_float (dict_get device k (JNum (PInt 0))) (PInt 0) of
        Inl e \<Rightarrow> Inl e
      | Inr v \<Rightarrow> (case divisor of None \<Rightarrow> Inr v | Some c \<Rightarrow> num_div v c))"

text \<open>The entries are evaluated in order; the first exception ends the evaluation.\<close>

fun field_values ::
  "(string \<times> json) list \<Rightarrow> (string \<times> int option) list \<Rightarrow> py_exn + (string \<times> json) list" where
  "field_values device [] = Inr []"
| "field_values device ((k, divisor) # fs) =
     (case field_value device k divisor of
        Inl e \<Rightarrow> Inl e
      | Inr v \<Rightarrow> (case field_values device fs of
                    Inl e \<Rightarrow> Inl e
                  | Inr r \<Rightarrow> Inr ((k, JNum v) # r)))"

text \<open>Lines 52 to 140: the record of one device, a dict.\<close>

definition device_record :: "(string \<times> json) list \<Rightarrow> py_exn + (string \<times> json) list" where
  "device_record device =
     (case safe_float (dict_get device ''pac'' (JNum (PInt 0))) (PInt 0) of
        Inl e \<Rightarrow> Inl e
      | Inr pac \<Rightarrow>
          (case (if truthy_num pac then num_div pac 1000 else Inr (PInt 0)) of
             Inl e \<Rightarrow> Inl e
           | Inr power_kw \<Rightarrow>
               (case safe_int (dict_get device ''currentState'' JNull) (PInt 0) of
                  Inl e \<Rightarrow> Inl e
                | Inr state \<Rightarrow>
                    (case field_values device numeric_fields of
                       Inl e \<Rightarrow> Inl e
                     | Inr rest \<Rightarrow>
                         Inr ([(''power'', JNum power_kw),
                               (''device_name'', dict_get device ''sn'' (JStr ''Unknown'')),
                               (''timestamp'', dict_get device ''tim'' (JStr [])),
                               (''status'', JStr (if num_eq_int state 1 then ''Normal''
                                                  else ''Offline'')),
                               (''pac'', JNum pac)] @ rest)))))"

text \<open>
  \<open>extract_live_data\<close>.  \<open>device.get\<close> raises \<open>AttributeError\<close> when the selected
  device is not a dict.
\<close>

definition extract_live_data :: "json \<Rightarrow> py_exn + (string \<times> json) list" where
  "extract_live_data api_response =
     (case is_api_success api_response of
        Inl e \<Rightarrow> Inl e
      | Inr ok \<Rightarrow>
          if \<not> ok then Inr []
          else (case api_response of
                  JDict r \<Rightarrow>
                    (let devices = dict_get r ''data'' (JList [])
                     in if \<not> truthy devices then Inr []
                        else (case first_device devices of
                                Inl e \<Rightarrow> Inl e
                              | Inr (JDict device) \<Rightarrow> device_record device
                              | Inr v \<Rightarrow> Inl (no_attribute_get v)))
                | v \<Rightarrow> Inl (no_attribute_get v)))"

subsection \<open>\<open>main\<close>\<close>

text \<open>\<open>d[k] = v\<close> and \<open>d.update(other)\<close> on a dict in insertion order.\<close>

fun dict_set :: "string \<Rightarrow> json \<Rightarrow> (string \<times> json) list \<Rightarrow> (string \<times> json) list" where
  "dict_set k v [] = [(k, v)]"
| "dict_set k v ((k', v') # d) = (if k' = k then (k, v) # d else (k', v') # dict_set k v d)"

definition dict_update ::
  "(string \<times> json) list \<Rightarrow> (string \<times> json) list \<Rightarrow> (string \<times> json) list" where
  "dict_update d other = foldl (\<lambda>acc (k, v). dict_set k v acc) d other"

text \<open>The default output of \<open>main\<close>; \<open>now\<close> is \<open>datetime.now().isoformat()\<close>.\<close>

definition output_data :: "string \<Rightarrow> (string \<times> json) list" where
  "output_data now =
     [(''timestamp'', JStr now),
      (''success'', JBool False),
      (''power'', JNum (PInt 0)),
      (''device_name'', JStr ''Unknown''),
      (''status'', JStr ''unknown'')]
     @ map (\<lambda>k. (k, JNum (PInt 0)))
        [''pac'', ''prc'', ''sac'', ''pf'',
         ''hto'', ''etd'', ''eto'',
         ''v1'', ''v2'', ''v3'',
         ''i1'', ''i2'', ''i3'',
         ''s1'', ''s2'', ''s3'',
         ''cf'', ''tu'', ''tv'', ''tw'', ''cb'',
         ''bv'',
         ''va1'', ''va2'', ''va3'',
         ''ia1'', ''ia2'', ''ia3'',
         ''fac'',
         ''er'', ''wn0'',
         ''bat0'', ''bat1'', ''bat2'', ''bat3'', ''bat4'',
         ''bat5'', ''bat6'', ''bat7'', ''bat8'', ''bat9'',
         ''bat10'', ''bat11'', ''bat12'', ''bat13'', ''bat14'',
         ''bat15'', ''bat16'', ''bat17'', ''bat18'',
         ''meterPow'', ''meterIed'', ''meterOed'', ''meterIet'', ''meterOet'',
         ''powerRatio'', ''csq'']"



text \<open>The body of the \<open>try\<close> of \<open>main\<close>, from the response of \<open>getLastTsDataPro\<close> on.\<close>

definition main_try :: "string \<Rightarrow> json \<Rightarrow> py_exn + (string \<times> json) list" where
  "main_try now live_response =
     (case is_api_success live_response of
        Inl e \<Rightarrow> Inl e
      | Inr ok \<Rightarrow>
          if ok
          then (case extract_live_data live_response of
                  Inl e \<Rightarrow> Inl e
                | Inr live_data \<Rightarrow>
                    Inr (dict_set ''success'' (JBool True) (dict_update (output_data now) live_data)))
          else Inr (output_data now))"


subsection \<open>The response of the specification's example\<close>

definition example_device :: "(string \<times> json) list" where
  "example_device = [(''pac'', JStr ''1500''), (''sn'', JStr ''X1''), (''currentState'', JStr ''1'')]"

definition example_response :: json where
  "example_response =
     JDict [(''status'', JNum (PInt 200)), (''info'', JStr ''success''),
            (''data'', JList [JDict example_device])]"

section \<open>Properties of the request builder\<close>

subsection \<open>Splitting\<close>

lemma split_on_notin: "c \<notin> set s \<Longrightarrow> split_on c s = [s]"
proof -
  assume a: "c \<notin> set s"
  then have d: "dropWhile (\<lambda>x. x \<noteq> c) s = []" by auto
  from a have t: "takeWhile (\<lambda>x. x \<noteq> c) s = s" by auto
  show ?thesis by (subst split_on.simps) (simp add: d t)
qed

lemma split_on_first: "c \<notin> set p \<Longrightarrow> split_on c (p @ c # r) = p # split_on c r"
proof -
  assume a: "c \<notin> set p"
  then have d: "dropWhile (\<lambda>x. x \<noteq> c) (p @ c # r) = c # r"
    by (auto simp: dropWhile_append3)
  from a have t: "takeWhile (\<lambda>x. x \<noteq> c) (p @ c # r) = p"
    by (auto simp: takeWhile_tail)
  show ?thesis by (subst split_on.simps) (simp add: d t)
qed

lemma split_on_not_Nil: "split_on c s \<noteq> []"
  by (subst split_on.simps) (simp split: list.splits)

lemma hd_split_on: "hd (split_on c s) = takeWhile (\<lambda>x. x \<noteq> c) s"
  by (subst split_on.simps) (simp split: list.splits)

lemma split_on_append: "split_on c (a @ c # b) = split_on c a @ split_on c b"
proof (induction c a rule: split_on.induct)
  case (1 c s)
  show ?case
  proof (cases "c \<in> set s")
    case False
    then show ?thesis by (simp add: split_on_first split_on_notin)
  next
    case True
    then obtain p r where s: "s = p @ c # r" and p: "c \<notin> set p"
      by (meson split_list_first)
    have d: "dropWhile (\<lambda>x. x \<noteq> c) s = c # r"
      using s p by (auto simp: dropWhile_append3)
    have "split_on c (r @ c # b) = split_on c r @ split_on c b"
      using "1.IH" [OF d] .
    then show ?thesis using s p by (simp add: split_on_first)
  qed
qed

subsection \<open>Canonical endpoints\<close>

lemma canonicalize_query:
  assumes "CHR ''?'' \<notin> set p"
  shows "canonicalize (p @ CHR ''?'' # rest) =
    p @ ''?'' @ join ''&'' (sort (split_on CHR ''&'' (takeWhile (\<lambda>x. x \<noteq> CHR ''?'') rest)))"
proof -
  have s: "split_on CHR ''?'' (p @ CHR ''?'' # rest) = p # split_on CHR ''?'' rest"
    using assms by (rule split_on_first)
  obtain y ys where r: "split_on CHR ''?'' rest = y # ys"
    using split_on_not_Nil [of "CHR ''?''" rest] by (cases "split_on CHR ''?'' rest") auto
  have y: "y = takeWhile (\<lambda>x. x \<noteq> CHR ''?'') rest"
    using hd_split_on [of "CHR ''?''" rest] r by simp
  show ?thesis by (simp add: canonicalize_def s r y)
qed

lemma canonicalize_no_query: "CHR ''?'' \<notin> set e \<Longrightarrow> canonicalize e = e"
  by (simp add: canonicalize_def split_on_notin)

lemma canonicalize_has_query:
  assumes "CHR ''?'' \<in> set e"
  shows "canonicalize e =
    takeWhile (\<lambda>x. x \<noteq> CHR ''?'') e @ ''?'' @
    join ''&'' (sort (split_on CHR ''&''
      (takeWhile (\<lambda>x. x \<noteq> CHR ''?'') (tl (dropWhile (\<lambda>x. x \<noteq> CHR ''?'') e)))))"
proof -
  from assms obtain p r where e: "e = p @ CHR ''?'' # r" and p: "CHR ''?'' \<notin> set p"
    by (meson split_list_first)
  have t: "takeWhile (\<lambda>x. x \<noteq> CHR ''?'') e = p"
    using e p by (auto simp: takeWhile_tail)
  have d: "dropWhile (\<lambda>x. x \<noteq> CHR ''?'') e = CHR ''?'' # r"
    using e p by (auto simp: dropWhile_append3)
  show ?thesis unfolding t d using canonicalize_query [OF p, of r] e by simp
qed

lemma append_auth_eq:
  "append_auth self endpoint =
     endpoint @ (if CHR ''?'' \<in> set endpoint then ''&'' else ''?'') @ ''apikey='' @ api_key self
       @ ''&token='' @ token self @ ''&isnos='' @ sn self"
  by (simp add: append_auth_def Let_def)

lemma append_auth_has_query: "CHR ''?'' \<in> set (append_auth self endpoint)"
  by (simp add: append_auth_def Let_def)

lemma url_prepare_request:
  "url (prepare_request h b self endpoint) = base_url @ canonicalize (append_auth self endpoint)"
  by (simp add: prepare_request_def Let_def)

lemma string_to_sign_prepare_request:
  "string_to_sign (prepare_request h b self endpoint) =
     http_method @ nl @ accept @ nl @ nl @ content_type @ nl @ nl @ ''X-Ca-Key:'' @ app_key self @ nl
       @ canonicalize (append_auth self endpoint)"
  by (simp add: prepare_request_def Let_def)

lemma headers_prepare_request:
  "headers (prepare_request h b self endpoint) =
     [(''User-Agent'', ''app 1.0''),
      (''Content-Type'', content_type),
      (''Accept'', accept),
      (''X-Ca-Signature-Headers'', ''X-Ca-Key''),
      (''X-Ca-Key'', app_key self),
      (''X-Ca-Signature'',
        b (h (app_secret self) (string_to_sign (prepare_request h b self endpoint))))]"
  by (simp add: prepare_request_def Let_def)

text \<open>
  \<open>_make_request\<close> appends \<open>apikey\<close>, \<open>token\<close> and \<open>isnos\<close> in this order, after
  \<open>?\<close> when the endpoint has no \<open>?\<close> yet and after \<open>&\<close> otherwise.  The result
  always has a \<open>?\<close>, so the sorting branch is always taken: the endpoint becomes the
  path (the text before the first \<open>?\<close>), a \<open>?\<close>, and the \<open>&\<close>-separated components
  of the text between the first \<open>?\<close> and the next one (or the end), sorted as whole
  strings and joined by \<open>&\<close>.  The URL sent is the base URL followed by this string,
  and the string that is signed ends with the very same string.
\<close>

lemma prepared_endpoint:
  "let with_auth = endpoint @ (if CHR ''?'' \<in> set endpoint then ''&'' else ''?'')
                     @ ''apikey='' @ api_key self @ ''&token='' @ token self
                     @ ''&isnos='' @ sn self;
       path = takeWhile (\<lambda>x. x \<noteq> CHR ''?'') with_auth;
       query = takeWhile (\<lambda>x. x \<noteq> CHR ''?'') (tl (dropWhile (\<lambda>x. x \<noteq> CHR ''?'') with_auth));
       canonical = path @ ''?'' @ join ''&'' (sort (split_on CHR ''&'' query));
       req = prepare_request hmac_sha256 b64encode self endpoint
   in append_auth self endpoint = with_auth \<and>
      canonicalize with_auth = canonical \<and>
      url req = base_url @ canonical \<and>
      string_to_sign req =
        ''GET'' @ nl @ ''application/json'' @ nl @ nl @ ''application/json; charset=UTF-8''
          @ nl @ nl @ ''X-Ca-Key:'' @ app_key self @ nl @ canonical"
proof -
  define w where "w = endpoint @ (if CHR ''?'' \<in> set endpoint then ''&'' else ''?'')
                     @ ''apikey='' @ api_key self @ ''&token='' @ token self
                     @ ''&isnos='' @ sn self"
  have a: "append_auth self endpoint = w"
    unfolding w_def by (rule append_auth_eq)
  have q: "CHR ''?'' \<in> set w"
    using append_auth_has_query [of self endpoint] a by simp
  have c: "canonicalize w =
      takeWhile (\<lambda>x. x \<noteq> CHR ''?'') w @ ''?'' @
      join ''&'' (sort (split_on CHR ''&''
        (takeWhile (\<lambda>x. x \<noteq> CHR ''?'') (tl (dropWhile (\<lambda>x. x \<noteq> CHR ''?'') w)))))"
    by (rule canonicalize_has_query [OF q])
  have u: "url (prepare_request hmac_sha256 b64encode self endpoint) = base_url @ canonicalize w"
    by (simp only: url_prepare_request a)
  have s: "string_to_sign (prepare_request hmac_sha256 b64encode self endpoint) =
      ''GET'' @ nl @ ''application/json'' @ nl @ nl @ ''application/json; charset=UTF-8''
        @ nl @ nl @ ''X-Ca-Key:'' @ app_key self @ nl @ canonicalize w"
    by (simp add: string_to_sign_prepare_request a http_method_def accept_def content_type_def)
  show ?thesis
    unfolding Let_def w_def [symmetric] using a c u s by simp
qed

text \<open>
  C2.  The signed string is \<open>GET\<close>, the Accept value, an empty line, the Content-Type
  value, an empty line, \<open>X-Ca-Key:\<close> followed by the app key, and the canonical
  endpoint, separated by line feeds.  The \<open>X-Ca-Signature\<close> header is the base64
  encoding of the HMAC-SHA256 of this string under the app secret: a function of the
  credentials and the endpoint alone, with no clock and no nonce.  For the app key
  \<open>K\<close> and the endpoint \<open>/pro/test\<close> the signed string is the one of the
  specification.
\<close>

theorem signature_of_request:
  "string_to_sign (prepare_request hmac_sha256 b64encode self endpoint) =
     ''GET'' @ nl @ ''application/json'' @ nl @ nl @ ''application/json; charset=UTF-8''
       @ nl @ nl @ ''X-Ca-Key:'' @ app_key self @ nl @ canonicalize (append_auth self endpoint) \<and>
   map_of (headers (prepare_request hmac_sha256 b64encode self endpoint)) ''X-Ca-Signature'' =
     Some (b64encode (hmac_sha256 (app_secret self)
       (''GET'' @ nl @ ''application/json'' @ nl @ nl @ ''application/json; charset=UTF-8''
         @ nl @ nl @ ''X-Ca-Key:'' @ app_key self @ nl
         @ canonicalize (append_auth self endpoint)))) \<and>
   string_to_sign (prepare_request hmac_sha256 b64encode
       \<lparr>app_key = ''K'', app_secret = ''S'', api_key = ''A'', token = ''T'', sn = ''N''\<rparr>
       ''/pro/test'') =
     ''GET'' @ nl @ ''application/json'' @ nl @ nl @ ''application/json; charset=UTF-8''
       @ nl @ nl @ ''X-Ca-Key:K'' @ nl @ ''/pro/test?apikey=A&isnos=N&token=T''"
proof -
  have c: "canonicalize (append_auth
       \<lparr>app_key = ''K'', app_secret = ''S'', api_key = ''A'', token = ''T'', sn = ''N''\<rparr>
       ''/pro/test'') = ''/pro/test?apikey=A&isnos=N&token=T''"
    by code_simp
  show ?thesis
    unfolding headers_prepare_request string_to_sign_prepare_request c
    by (simp add: http_method_def accept_def content_type_def)
qed

text \<open>
  C10.  An endpoint with more than one \<open>?\<close> is \<open>p ? q ? r\<close> with no \<open>?\<close> in \<open>p\<close>
  and \<open>q\<close>.  Its canonical form is \<open>p\<close>, a \<open>?\<close>, and the sorted components of \<open>q\<close>:
  \<open>r\<close>, the text after the second \<open>?\<close>, is dropped.
\<close>

theorem canonicalize_drops_after_second_mark:
  assumes "CHR ''?'' \<notin> set p" and "CHR ''?'' \<notin> set q"
  shows "canonicalize (p @ ''?'' @ q @ ''?'' @ r) =
           p @ ''?'' @ join ''&'' (sort (split_on CHR ''&'' q))"
proof -
  have "takeWhile (\<lambda>x. x \<noteq> CHR ''?'') (q @ CHR ''?'' # r) = q"
    using assms(2) by (auto simp: takeWhile_tail)
  then show ?thesis
    using canonicalize_query [OF assms(1), of "q @ CHR ''?'' # r"] by simp
qed

theorem canonicalize_drops_after_second_mark_witness:
  "CHR ''?'' \<notin> set ''/pro/x'' \<and> CHR ''?'' \<notin> set ''b=2&a=1'' \<and>
   canonicalize (''/pro/x'' @ ''?'' @ ''b=2&a=1'' @ ''?'' @ ''c=3&d=4'') = ''/pro/x?a=1&b=2''"
proof -
  have p: "CHR ''?'' \<notin> set ''/pro/x''" by simp
  have q: "CHR ''?'' \<notin> set ''b=2&a=1''" by simp
  have s: "join ''&'' (sort (split_on CHR ''&'' ''b=2&a=1'')) = ''a=1&b=2''" by code_simp
  show ?thesis
    using canonicalize_drops_after_second_mark [OF p q, of "''c=3&d=4''"] p q s by simp
qed

subsection \<open>Endpoints with at most one query string\<close>

lemma split_on_auth:
  assumes "CHR ''&'' \<notin> set a" and "CHR ''&'' \<notin> set t" and "CHR ''&'' \<notin> set n"
  shows "split_on CHR ''&'' (''apikey='' @ a @ ''&token='' @ t @ ''&isnos='' @ n) =
           [''apikey='' @ a, ''token='' @ t, ''isnos='' @ n]"
proof -
  have 1: "CHR ''&'' \<notin> set (''apikey='' @ a)" using assms(1) by simp
  have 2: "CHR ''&'' \<notin> set (''token='' @ t)" using assms(2) by simp
  have 3: "CHR ''&'' \<notin> set (''isnos='' @ n)" using assms(3) by simp
  have "split_on CHR ''&'' ((''apikey='' @ a) @ CHR ''&'' # ((''token='' @ t) @ CHR ''&'' # (''isnos='' @ n)))
      = [''apikey='' @ a, ''token='' @ t, ''isnos='' @ n]"
    by (simp only: split_on_first [OF 1] split_on_first [OF 2] split_on_notin [OF 3])
  then show ?thesis by simp
qed

text \<open>
  When the endpoint has no query string, and no credential contains \<open>?\<close> or \<open>&\<close>,
  the canonical endpoint is the path, \<open>?\<close>, and the three authentication
  parameters sorted.
\<close>

lemma canonical_endpoint_path_only:
  assumes "CHR ''?'' \<notin> set p"
    and "CHR ''?'' \<notin> set (api_key self)" "CHR ''?'' \<notin> set (token self)" "CHR ''?'' \<notin> set (sn self)"
    and "CHR ''&'' \<notin> set (api_key self)" "CHR ''&'' \<notin> set (token self)" "CHR ''&'' \<notin> set (sn self)"
  shows "canonicalize (append_auth self p) =
           p @ ''?'' @ join ''&'' (sort [''apikey='' @ api_key self, ''token='' @ token self,
                                         ''isnos='' @ sn self])"
proof -
  let ?rest = "''apikey='' @ api_key self @ ''&token='' @ token self @ ''&isnos='' @ sn self"
  have a: "append_auth self p = p @ CHR ''?'' # ?rest"
    using assms(1) by (simp add: append_auth_eq)
  have n: "CHR ''?'' \<notin> set ?rest"
    using assms(2-4) by simp
  have t: "takeWhile (\<lambda>x. x \<noteq> CHR ''?'') ?rest = ?rest"
    using n by (simp only: takeWhile_eq_all_conv) blast
  show ?thesis
    unfolding a canonicalize_query [OF assms(1)] t split_on_auth [OF assms(5-7)] by simp
qed

text \<open>
  When the endpoint is \<open>p ? q\<close> with no further \<open>?\<close>, and no credential contains
  \<open>?\<close> or \<open>&\<close>, the canonical endpoint keeps every component: the components of
  \<open>q\<close> and the three authentication parameters, sorted together.
\<close>

lemma canonical_endpoint_with_query:
  assumes "CHR ''?'' \<notin> set p" and "CHR ''?'' \<notin> set q"
    and "CHR ''?'' \<notin> set (api_key self)" "CHR ''?'' \<notin> set (token self)" "CHR ''?'' \<notin> set (sn self)"
    and "CHR ''&'' \<notin> set (api_key self)" "CHR ''&'' \<notin> set (token self)" "CHR ''&'' \<notin> set (sn self)"
  shows "canonicalize (append_auth self (p @ ''?'' @ q)) =
           p @ ''?'' @ join ''&'' (sort (split_on CHR ''&'' q @
             [''apikey='' @ api_key self, ''token='' @ token self, ''isnos='' @ sn self]))"
proof -
  let ?auth = "''apikey='' @ api_key self @ ''&token='' @ token self @ ''&isnos='' @ sn self"
  have a: "append_auth self (p @ ''?'' @ q) = p @ CHR ''?'' # (q @ CHR ''&'' # ?auth)"
    by (simp add: append_auth_eq)
  have n: "CHR ''?'' \<notin> set (q @ CHR ''&'' # ?auth)"
    using assms(2-5) by simp
  have t: "takeWhile (\<lambda>x. x \<noteq> CHR ''?'') (q @ CHR ''&'' # ?auth) = q @ CHR ''&'' # ?auth"
    using n by (simp only: takeWhile_eq_all_conv) blast
  show ?thesis
    unfolding a canonicalize_query [OF assms(1)] t split_on_append split_on_auth [OF assms(6-8)]
    by simp
qed

text \<open>
  C1, as the code has it.  For every endpoint and every credential tuple,
  \<open>_make_request\<close> appends \<open>apikey\<close>, \<open>token\<close> and \<open>isnos\<close> in this order (after
  \<open>?\<close> when the endpoint has no \<open>?\<close> yet, after \<open>&\<close> otherwise), then sorts the
  \<open>&\<close>-separated components of the text between the first \<open>?\<close> and the next one (or
  the end) as whole strings and joins them by \<open>&\<close> after the path and a \<open>?\<close>; the
  URL sent and the signed string end with the same canonical endpoint.  When the
  endpoint has at most one \<open>?\<close> and no credential contains \<open>?\<close> or \<open>&\<close>, the sorted
  components are all of them: those of the endpoint's query string and the three
  authentication parameters.
\<close>

theorem sent_endpoint_is_signed_endpoint:
  "(let with_auth = endpoint @ (if CHR ''?'' \<in> set endpoint then ''&'' else ''?'')
                     @ ''apikey='' @ api_key self @ ''&token='' @ token self
                     @ ''&isnos='' @ sn self;
        path = takeWhile (\<lambda>x. x \<noteq> CHR ''?'') with_auth;
        query = takeWhile (\<lambda>x. x \<noteq> CHR ''?'') (tl (dropWhile (\<lambda>x. x \<noteq> CHR ''?'') with_auth));
        canonical = path @ ''?'' @ join ''&'' (sort (split_on CHR ''&'' query));
        req = prepare_request hmac_sha256 b64encode self endpoint
    in append_auth self endpoint = with_auth \<and>
       canonicalize with_auth = canonical \<and>
       url req = base_url @ canonical \<and>
       string_to_sign req =
         ''GET'' @ nl @ ''application/json'' @ nl @ nl @ ''application/json; charset=UTF-8''
           @ nl @ nl @ ''X-Ca-Key:'' @ app_key self @ nl @ canonical) \<and>
   (CHR ''?'' \<notin> set endpoint \<and>
    CHR ''?'' \<notin> set (api_key self @ token self @ sn self) \<and>
    CHR ''&'' \<notin> set (api_key self @ token self @ sn self) \<longrightarrow>
      canonicalize (append_auth self endpoint) =
        endpoint @ ''?'' @ join ''&'' (sort [''apikey='' @ api_key self, ''token='' @ token self,
                                             ''isnos='' @ sn self])) \<and>
   (\<forall>p q. endpoint = p @ ''?'' @ q \<and> CHR ''?'' \<notin> set p \<and> CHR ''?'' \<notin> set q \<and>
          CHR ''?'' \<notin> set (api_key self @ token self @ sn self) \<and>
          CHR ''&'' \<notin> set (api_key self @ token self @ sn self) \<longrightarrow>
      canonicalize (append_auth self endpoint) =
        p @ ''?'' @ join ''&'' (sort (split_on CHR ''&'' q @
          [''apikey='' @ api_key self, ''token='' @ token self, ''isnos='' @ sn self])))"
proof (intro conjI)
  show "let with_auth = endpoint @ (if CHR ''?'' \<in> set endpoint then ''&'' else ''?'')
                     @ ''apikey='' @ api_key self @ ''&token='' @ token self
                     @ ''&isnos='' @ sn self;
        path = takeWhile (\<lambda>x. x \<noteq> CHR ''?'') with_auth;
        query = takeWhile (\<lambda>x. x \<noteq> CHR ''?'') (tl (dropWhile (\<lambda>x. x \<noteq> CHR ''?'') with_auth));
        canonical = path @ ''?'' @ join ''&'' (sort (split_on CHR ''&'' query));
        req = prepare_request hmac_sha256 b64encode self endpoint
    in append_auth self endpoint = with_auth \<and>
       canonicalize with_auth = canonical \<and>
       url req = base_url @ canonical \<and>
       string_to_sign req =
         ''GET'' @ nl @ ''application/json'' @ nl @ nl @ ''application/json; charset=UTF-8''
           @ nl @ nl @ ''X-Ca-Key:'' @ app_key self @ nl @ canonical"
    by (rule prepared_endpoint)
next
  show "CHR ''?'' \<notin> set endpoint \<and>
    CHR ''?'' \<notin> set (api_key self @ token self @ sn self) \<and>
    CHR ''&'' \<notin> set (api_key self @ token self @ sn self) \<longrightarrow>
      canonicalize (append_auth self endpoint) =
        endpoint @ ''?'' @ join ''&'' (sort [''apikey='' @ api_key self, ''token='' @ token self,
                                             ''isnos='' @ sn self])"
  proof (intro impI, elim conjE)
    assume "CHR ''?'' \<notin> set endpoint"
      and "CHR ''?'' \<notin> set (api_key self @ token self @ sn self)"
      and "CHR ''&'' \<notin> set (api_key self @ token self @ sn self)"
    then show "canonicalize (append_auth self endpoint) =
        endpoint @ ''?'' @ join ''&'' (sort [''apikey='' @ api_key self, ''token='' @ token self,
                                             ''isnos='' @ sn self])"
      by (intro canonical_endpoint_path_only) simp_all
  qed
next
  show "\<forall>p q. endpoint = p @ ''?'' @ q \<and> CHR ''?'' \<notin> set p \<and> CHR ''?'' \<notin> set q \<and>
          CHR ''?'' \<notin> set (api_key self @ token self @ sn self) \<and>
          CHR ''&'' \<notin> set (api_key self @ token self @ sn self) \<longrightarrow>
      canonicalize (append_auth self endpoint) =
        p @ ''?'' @ join ''&'' (sort (split_on CHR ''&'' q @
          [''apikey='' @ api_key self, ''token='' @ token self, ''isnos='' @ sn self]))"
  proof (intro allI impI, elim conjE)
    fix p q
    assume e: "endpoint = p @ ''?'' @ q"
      and "CHR ''?'' \<notin> set p" and "CHR ''?'' \<notin> set q"
      and "CHR ''?'' \<notin> set (api_key self @ token self @ sn self)"
      and "CHR ''&'' \<notin> set (api_key self @ token self @ sn self)"
    then show "canonicalize (append_auth self endpoint) =
        p @ ''?'' @ join ''&'' (sort (split_on CHR ''&'' q @
          [''apikey='' @ api_key self, ''token='' @ token self, ''isnos='' @ sn self]))"
      unfolding e by (intro canonical_endpoint_with_query) simp_all
  qed
qed

text \<open>An endpoint without a query string, and one with two parameters.\<close>

theorem sent_endpoint_is_signed_endpoint_witness:
  "canonicalize (append_auth
     \<lparr>app_key = ''K'', app_secret = ''S'', api_key = ''A'', token = ''T'', sn = ''N''\<rparr>
     ''/pro/test'') = ''/pro/test?apikey=A&isnos=N&token=T'' \<and>
   canonicalize (append_auth
     \<lparr>app_key = ''K'', app_secret = ''S'', api_key = ''A'', token = ''T'', sn = ''N''\<rparr>
     (''/pro/getPlantOutputPro'' @ ''?'' @ ''period=bydays&date=2024-05-17'')) =
     ''/pro/getPlantOutputPro?apikey=A&date=2024-05-17&isnos=N&period=bydays&token=T''"
proof -
  let ?self = "\<lparr>app_key = ''K'', app_secret = ''S'', api_key = ''A'', token = ''T'', sn = ''N''\<rparr>"
  have j1: "join ''&'' (sort [''apikey=A'', ''token=T'', ''isnos=N'']) = ''apikey=A&isnos=N&token=T''"
    by code_simp
  have j2: "join ''&'' (sort (split_on CHR ''&'' ''period=bydays&date=2024-05-17'' @
      [''apikey=A'', ''token=T'', ''isnos=N''])) = ''apikey=A&date=2024-05-17&isnos=N&period=bydays&token=T''"
    by code_simp
  note w1 = sent_endpoint_is_signed_endpoint [of "''/pro/test''" ?self
      "\<lambda>k m. k @ m" "\<lambda>x. x"]
  note w2 = sent_endpoint_is_signed_endpoint
      [of "''/pro/getPlantOutputPro'' @ ''?'' @ ''period=bydays&date=2024-05-17''" ?self
        "\<lambda>k m. k @ m" "\<lambda>x. x"]
  have a: "canonicalize (append_auth ?self ''/pro/test'') = ''/pro/test?apikey=A&isnos=N&token=T''"
    using w1 [THEN conjunct2, THEN conjunct1] j1 by simp
  have "''/pro/getPlantOutputPro'' @ ''?'' @ ''period=bydays&date=2024-05-17'' =
      ''/pro/getPlantOutputPro'' @ ''?'' @ ''period=bydays&date=2024-05-17'' \<and>
      CHR ''?'' \<notin> set ''/pro/getPlantOutputPro'' \<and>
      CHR ''?'' \<notin> set ''period=bydays&date=2024-05-17'' \<and>
      CHR ''?'' \<notin> set (api_key ?self @ token ?self @ sn ?self) \<and>
      CHR ''&'' \<notin> set (api_key ?self @ token ?self @ sn ?self)"
    by simp
  then have "canonicalize (append_auth ?self
      (''/pro/getPlantOutputPro'' @ ''?'' @ ''period=bydays&date=2024-05-17'')) =
      ''/pro/getPlantOutputPro'' @ ''?'' @ join ''&'' (sort (split_on CHR ''&''
        ''period=bydays&date=2024-05-17'' @
        [''apikey='' @ api_key ?self, ''token='' @ token ?self, ''isnos='' @ sn ?self]))"
    by (rule w2 [THEN conjunct2, THEN conjunct2, THEN spec, THEN spec, THEN mp])
  then have b: "canonicalize (append_auth ?self
      (''/pro/getPlantOutputPro'' @ ''?'' @ ''period=bydays&date=2024-05-17'')) =
     ''/pro/getPlantOutputPro?apikey=A&date=2024-05-17&isnos=N&period=bydays&token=T''"
    using j2 by simp
  show ?thesis by (intro conjI a b)
qed

text \<open>
  With the API key \<open>a?b\<close> the canonical endpoint is not the sorted join of all the
  components: \<open>token\<close> and \<open>isnos\<close> are lost.
\<close>

theorem sent_endpoint_counterexample:
  "append_auth \<lparr>app_key = ''K'', app_secret = ''S'', api_key = ''a?b'', token = ''T'', sn = ''N''\<rparr>
     ''/pro/x'' = ''/pro/x?apikey=a?b&token=T&isnos=N'' \<and>
   canonicalize (append_auth
     \<lparr>app_key = ''K'', app_secret = ''S'', api_key = ''a?b'', token = ''T'', sn = ''N''\<rparr>
     ''/pro/x'') = ''/pro/x?apikey=a'' \<and>
   ''/pro/x?'' @ join ''&'' (sort (split_on CHR ''&'' ''apikey=a?b&token=T&isnos=N'')) =
     ''/pro/x?apikey=a?b&isnos=N&token=T'' \<and>
   canonicalize (append_auth
     \<lparr>app_key = ''K'', app_secret = ''S'', api_key = ''a?b'', token = ''T'', sn = ''N''\<rparr>
     ''/pro/x'') \<noteq>
     ''/pro/x?'' @ join ''&'' (sort (split_on CHR ''&'' ''apikey=a?b&token=T&isnos=N''))"
proof -
  let ?self = "\<lparr>app_key = ''K'', app_secret = ''S'', api_key = ''a?b'', token = ''T'', sn = ''N''\<rparr>"
  have a: "append_auth ?self ''/pro/x'' = ''/pro/x?apikey=a?b&token=T&isnos=N''"
    by (simp add: append_auth_eq)
  have c: "canonicalize ''/pro/x?apikey=a?b&token=T&isnos=N'' = ''/pro/x?apikey=a''"
    by code_simp
  have j: "''/pro/x?'' @ join ''&'' (sort (split_on CHR ''&'' ''apikey=a?b&token=T&isnos=N'')) =
     ''/pro/x?apikey=a?b&isnos=N&token=T''"
    by code_simp
  have n: "canonicalize (append_auth ?self ''/pro/x'') \<noteq>
     ''/pro/x?'' @ join ''&'' (sort (split_on CHR ''&'' ''apikey=a?b&token=T&isnos=N''))"
    unfolding a c j by simp
  show ?thesis
    by (intro conjI a j n) (simp only: a c)
qed

subsection \<open>The results of \<open>_make_request\<close>\<close>

lemma make_request_parsed:
  assumes "requests_get (url (prepare_request h b self endpoint))
             (headers (prepare_request h b self endpoint)) = Responded r"
    and "status_code r = 200" and "json_body r = Some v"
  shows "make_request h b requests_get self endpoint = v"
  using assms by (simp add: make_request_def Let_def)

lemma make_request_unparsed:
  assumes "requests_get (url (prepare_request h b self endpoint))
             (headers (prepare_request h b self endpoint)) = Responded r"
    and "status_code r = 200" and "json_body r = None"
  shows "make_request h b requests_get self endpoint =
           JDict [(''error'', JStr ''Failed to parse JSON response''),
                  (''status'', JNum (PInt 200))]"
  using assms by (simp add: make_request_def Let_def)

lemma make_request_not_200:
  assumes "requests_get (url (prepare_request h b self endpoint))
             (headers (prepare_request h b self endpoint)) = Responded r"
    and "status_code r \<noteq> 200"
  shows "make_request h b requests_get self endpoint =
           JDict [(''error'', JStr (resp_text r)),
                  (''status'', JNum (PInt (status_code r))),
                  (''headers'', JDict (map (\<lambda>(k, v). (k, JStr v)) (resp_headers r)))]"
  using assms by (simp add: make_request_def Let_def)

lemma make_request_transport:
  assumes "requests_get (url (prepare_request h b self endpoint))
             (headers (prepare_request h b self endpoint)) = RequestException d"
  shows "make_request h b requests_get self endpoint = JDict [(''error'', JStr d)]"
  using assms by (simp add: make_request_def Let_def)

text \<open>
  C3.  Whatever \<open>requests.get\<close> does at the prepared URL, \<open>_make_request\<close> returns
  a value.  A response with status 200 whose body does not parse gives the dict with
  the message \<open>Failed to parse JSON response\<close> under \<open>error\<close> and the status; a
  response with another status gives the dict with the response text under \<open>error\<close>,
  the status, and the response headers; a \<open>RequestException\<close> gives the dict with its
  description under \<open>error\<close>.  (A response with status 200 whose body parses gives the
  parsed value.)
\<close>

theorem make_request_returns_result:
  "let req = prepare_request hmac_sha256 b64encode self endpoint;
       outcome = requests_get (url req) (headers req);
       result = make_request hmac_sha256 b64encode requests_get self endpoint
   in (\<forall>r. outcome = Responded r \<and> status_code r = 200 \<and> json_body r = None \<longrightarrow>
            result = JDict [(''error'', JStr ''Failed to parse JSON response''),
                            (''status'', JNum (PInt (status_code r)))]) \<and>
      (\<forall>r. outcome = Responded r \<and> status_code r \<noteq> 200 \<longrightarrow>
            result = JDict [(''error'', JStr (resp_text r)),
                            (''status'', JNum (PInt (status_code r))),
                            (''headers'', JDict (map (\<lambda>(k, v). (k, JStr v)) (resp_headers r)))]) \<and>
      (\<forall>d. outcome = RequestException d \<longrightarrow> result = JDict [(''error'', JStr d)]) \<and>
      (\<forall>r v. outcome = Responded r \<and> status_code r = 200 \<and> json_body r = Some v \<longrightarrow>
            result = v)"
  unfolding Let_def
  by (intro conjI allI impI)
    (simp_all add: make_request_unparsed make_request_not_200 make_request_transport
      make_request_parsed)

text \<open>The three error results, for one exchange each.\<close>

theorem make_request_returns_result_witness:
  "make_request (\<lambda>k m. k @ m) (\<lambda>x. x)
     (\<lambda>u hs. Responded \<lparr>status_code = 200, resp_text = ''<html>'', resp_headers = [],
                         json_body = None\<rparr>)
     \<lparr>app_key = ''K'', app_secret = ''S'', api_key = ''A'', token = ''T'', sn = ''N''\<rparr>
     ''/pro/test'' =
       JDict [(''error'', JStr ''Failed to parse JSON response''), (''status'', JNum (PInt 200))] \<and>
   make_request (\<lambda>k m. k @ m) (\<lambda>x. x)
     (\<lambda>u hs. Responded \<lparr>status_code = 403, resp_text = ''Forbidden'',
                         resp_headers = [(''Server'', ''gw'')], json_body = None\<rparr>)
     \<lparr>app_key = ''K'', app_secret = ''S'', api_key = ''A'', token = ''T'', sn = ''N''\<rparr>
     ''/pro/test'' =
       JDict [(''error'', JStr ''Forbidden''), (''status'', JNum (PInt 403)),
              (''headers'', JDict [(''Server'', JStr ''gw'')])] \<and>
   make_request (\<lambda>k m. k @ m) (\<lambda>x. x) (\<lambda>u hs. RequestException ''timed out'')
     \<lparr>app_key = ''K'', app_secret = ''S'', api_key = ''A'', token = ''T'', sn = ''N''\<rparr>
     ''/pro/test'' =
       JDict [(''error'', JStr ''timed out'')]"
proof -
  let ?self = "\<lparr>app_key = ''K'', app_secret = ''S'', api_key = ''A'', token = ''T'', sn = ''N''\<rparr>"
  let ?h = "\<lambda>(k :: string) (m :: string). k @ m" and ?b = "\<lambda>x :: string. x"
  let ?g1 = "\<lambda>(u :: string) (hs :: (string \<times> string) list).
    Responded \<lparr>status_code = 200, resp_text = ''<html>'', resp_headers = [], json_body = None\<rparr>"
  let ?g2 = "\<lambda>(u :: string) (hs :: (string \<times> string) list).
    Responded \<lparr>status_code = 403, resp_text = ''Forbidden'',
               resp_headers = [(''Server'', ''gw'')], json_body = None\<rparr>"
  let ?g3 = "\<lambda>(u :: string) (hs :: (string \<times> string) list). RequestException ''timed out''"
  show ?thesis
    using make_request_returns_result [of ?h ?b ?self "''/pro/test''" ?g1]
      make_request_returns_result [of ?h ?b ?self "''/pro/test''" ?g2]
      make_request_returns_result [of ?h ?b ?self "''/pro/test''" ?g3]
    unfolding Let_def by simp
qed

text \<open>
  C9.  The three error results differ in their keys: after a \<open>RequestException\<close> the
  result has the key \<open>error\<close> alone; after a body that does not parse it has \<open>error\<close>
  and \<open>status\<close>, and the status is 200; after a status other than 200 it has
  \<open>error\<close>, \<open>status\<close> and \<open>headers\<close>.
\<close>

theorem error_results_keys:
  "let req = prepare_request hmac_sha256 b64encode self endpoint;
       outcome = requests_get (url req) (headers req);
       result = make_request hmac_sha256 b64encode requests_get self endpoint
   in (\<forall>d. outcome = RequestException d \<longrightarrow>
            (\<exists>kv. result = JDict kv \<and> map fst kv = [''error''])) \<and>
      (\<forall>r. outcome = Responded r \<and> status_code r = 200 \<and> json_body r = None \<longrightarrow>
            (\<exists>kv. result = JDict kv \<and> map fst kv = [''error'', ''status''] \<and>
                  map_of kv ''status'' = Some (JNum (PInt 200)))) \<and>
      (\<forall>r. outcome = Responded r \<and> status_code r \<noteq> 200 \<longrightarrow>
            (\<exists>kv. result = JDict kv \<and> map fst kv = [''error'', ''status'', ''headers''])) \<and>
      set [''error''] \<noteq> set [''error'', ''status''] \<and>
      set [''error''] \<noteq> set [''error'', ''status'', ''headers''] \<and>
      set [''error'', ''status''] \<noteq> set [''error'', ''status'', ''headers'']"
proof -
  have s1: "''status'' \<in> set [''error'', ''status'']"
    and s2: "''status'' \<in> set [''error'', ''status'', ''headers'']"
    and s3: "''status'' \<notin> set [''error'']"
    and h1: "''headers'' \<in> set [''error'', ''status'', ''headers'']"
    and h2: "''headers'' \<notin> set [''error'', ''status'']"
    by simp_all
  have k1: "set [''error''] \<noteq> set [''error'', ''status'']"
    using s1 s3 by blast
  have k2: "set [''error''] \<noteq> set [''error'', ''status'', ''headers'']"
    using s2 s3 by blast
  have k3: "set [''error'', ''status''] \<noteq> set [''error'', ''status'', ''headers'']"
    using h1 h2 by blast
  have a: "\<forall>d. requests_get (url (prepare_request hmac_sha256 b64encode self endpoint))
             (headers (prepare_request hmac_sha256 b64encode self endpoint)) = RequestException d \<longrightarrow>
      (\<exists>kv. make_request hmac_sha256 b64encode requests_get self endpoint = JDict kv \<and>
            map fst kv = [''error''])"
    by (simp add: make_request_transport)
  have b: "\<forall>r. requests_get (url (prepare_request hmac_sha256 b64encode self endpoint))
             (headers (prepare_request hmac_sha256 b64encode self endpoint)) = Responded r \<and>
           status_code r = 200 \<and> json_body r = None \<longrightarrow>
      (\<exists>kv. make_request hmac_sha256 b64encode requests_get self endpoint = JDict kv \<and>
            map fst kv = [''error'', ''status''] \<and>
            map_of kv ''status'' = Some (JNum (PInt 200)))"
    by (simp add: make_request_unparsed)
  have c: "\<forall>r. requests_get (url (prepare_request hmac_sha256 b64encode self endpoint))
             (headers (prepare_request hmac_sha256 b64encode self endpoint)) = Responded r \<and>
           status_code r \<noteq> 200 \<longrightarrow>
      (\<exists>kv. make_request hmac_sha256 b64encode requests_get self endpoint = JDict kv \<and>
            map fst kv = [''error'', ''status'', ''headers''])"
    by (simp add: make_request_not_200)
  show ?thesis
    unfolding Let_def using a b c k1 k2 k3 by blast
qed

theorem error_results_keys_witness:
  "(\<exists>kv. make_request (\<lambda>k m. k @ m) (\<lambda>x. x) (\<lambda>u hs. RequestException ''timed out'')
            \<lparr>app_key = ''K'', app_secret = ''S'', api_key = ''A'', token = ''T'', sn = ''N''\<rparr>
            ''/pro/test'' = JDict kv \<and> map fst kv = [''error'']) \<and>
   (\<exists>kv. make_request (\<lambda>k m. k @ m) (\<lambda>x. x)
            (\<lambda>u hs. Responded \<lparr>status_code = 200, resp_text = ''<html>'', resp_headers = [],
                                json_body = None\<rparr>)
            \<lparr>app_key = ''K'', app_secret = ''S'', api_key = ''A'', token = ''T'', sn = ''N''\<rparr>
            ''/pro/test'' = JDict kv \<and> map fst kv = [''error'', ''status''] \<and>
          map_of kv ''status'' = Some (JNum (PInt 200))) \<and>
   (\<exists>kv. make_request (\<lambda>k m. k @ m) (\<lambda>x. x)
            (\<lambda>u hs. Responded \<lparr>status_code = 403, resp_text = ''Forbidden'',
                                resp_headers = [(''Server'', ''gw'')], json_body = None\<rparr>)
            \<lparr>app_key = ''K'', app_secret = ''S'', api_key = ''A'', token = ''T'', sn = ''N''\<rparr>
            ''/pro/test'' = JDict kv \<and> map fst kv = [''error'', ''status'', ''headers''])"
proof -
  let ?self = "\<lparr>app_key = ''K'', app_secret = ''S'', api_key = ''A'', token = ''T'', sn = ''N''\<rparr>"
  let ?h = "\<lambda>(k :: string) (m :: string). k @ m" and ?b = "\<lambda>x :: string. x"
  let ?g1 = "\<lambda>(u :: string) (hs :: (string \<times> string) list).
    Responded \<lparr>status_code = 200, resp_text = ''<html>'', resp_headers = [], json_body = None\<rparr>"
  let ?g2 = "\<lambda>(u :: string) (hs :: (string \<times> string) list).
    Responded \<lparr>status_code = 403, resp_text = ''Forbidden'',
               resp_headers = [(''Server'', ''gw'')], json_body = None\<rparr>"
  let ?g3 = "\<lambda>(u :: string) (hs :: (string \<times> string) list). RequestException ''timed out''"
  show ?thesis
    using error_results_keys [of ?h ?b ?self "''/pro/test''" ?g1]
      error_results_keys [of ?h ?b ?self "''/pro/test''" ?g2]
      error_results_keys [of ?h ?b ?self "''/pro/test''" ?g3]
    unfolding Let_def by simp
qed

section \<open>Properties of the operation catalog\<close>

lemma catalog_complete: "operation \<in> set catalog"
  by (cases operation) (simp_all add: catalog_def)

text \<open>
  C7, as the code has it.  The catalog has 14 operations, each with its own name:
  13 reads and 1 create.  Each maps to one path, \<open>/pro/\<close> followed by its name,
  whatever the date, and the 14 paths are different.  Exactly two operations add
  query parameters: \<open>getPlantOutputPro\<close> adds \<open>period=bydays\<close> and the date, and
  \<open>getInverterETodayPro\<close> adds the date.  The endpoint of every other operation is
  its path.
\<close>

theorem catalog_operations:
  "length catalog = 14 \<and> distinct catalog \<and> set catalog = UNIV \<and>
   distinct (map op_name catalog) \<and>
   length (filter is_read catalog) = 13 \<and>
   filter is_create catalog = [CreatestationPro] \<and>
   filter (\<lambda>operation. \<not> is_read operation \<and> \<not> is_create operation) catalog = [] \<and>
   map (op_path date) catalog = map (\<lambda>operation. ''/pro/'' @ op_name operation) catalog \<and>
   distinct (map (op_path date) catalog) \<and>
   filter (adds_params date) catalog = [GetPlantOutputPro, GetInverterETodayPro] \<and>
   op_endpoint date GetPlantOutputPro = ''/pro/getPlantOutputPro?period=bydays&date='' @ date \<and>
   op_endpoint date GetInverterETodayPro = ''/pro/getInverterETodayPro?date='' @ date \<and>
   map (op_endpoint date) (filter (\<lambda>operation. \<not> adds_params date operation) catalog) =
     map (\<lambda>operation. ''/pro/'' @ op_name operation)
       (filter (\<lambda>operation. \<not> adds_params date operation) catalog)"
proof -
  have u: "set catalog = UNIV"
    using catalog_complete by blast
  have p: "map (op_path date) catalog = map (\<lambda>operation. ''/pro/'' @ op_name operation) catalog"
    by (simp add: catalog_def op_path_def)
  have n: "distinct (map op_name catalog)"
    by (simp add: catalog_def)
  have d: "distinct (map (op_path date) catalog)"
    unfolding p by (simp add: catalog_def)
  have a: "filter (adds_params date) catalog = [GetPlantOutputPro, GetInverterETodayPro]"
    by (simp add: catalog_def adds_params_def)
  have r: "map (op_endpoint date) (filter (\<lambda>operation. \<not> adds_params date operation) catalog) =
     map (\<lambda>operation. ''/pro/'' @ op_name operation)
       (filter (\<lambda>operation. \<not> adds_params date operation) catalog)"
    by (simp add: catalog_def adds_params_def)
  have c: "length catalog = 14 \<and> distinct catalog \<and>
      length (filter is_read catalog) = 13 \<and>
      filter is_create catalog = [CreatestationPro] \<and>
      filter (\<lambda>operation. \<not> is_read operation \<and> \<not> is_create operation) catalog = []"
    by (simp add: catalog_def is_read_def is_create_def)
  show ?thesis using u p n d a r c by simp
qed

text \<open>
  The catalog has neither 15 operations nor 14 reads, and on no date do three
  operations add parameters.
\<close>

theorem catalog_counts_counterexample:
  "length catalog \<noteq> 15 \<and>
   length (filter is_read catalog) \<noteq> 14 \<and>
   length (filter (adds_params ''2024-05-17'') catalog) \<noteq> 3"
  by (simp add: catalog_def is_read_def adds_params_def)

section \<open>Properties of the normalizer\<close>

subsection \<open>Responses without a device\<close>

lemma extract_live_data_not_success:
  "is_api_success (JDict r) = Inr False \<Longrightarrow> extract_live_data (JDict r) = Inr []"
  by (simp add: extract_live_data_def)

lemma extract_live_data_no_devices:
  "is_api_success (JDict r) = Inr True \<Longrightarrow> \<not> truthy (dict_get r ''data'' (JList [])) \<Longrightarrow>
   extract_live_data (JDict r) = Inr []"
  by (simp add: extract_live_data_def)

text \<open>
  C5.  For a response (a dict) whose \<open>status\<close> is not 200, or whose \<open>info\<close> is not
  \<open>success\<close>, or which has no \<open>data\<close>, \<open>extract_live_data\<close> returns the empty
  dict; so it does for a response that passes the check and whose \<open>data\<close> is the
  empty list.  The three responses of the specification are instances.
\<close>

theorem extract_live_data_empty:
  "(\<not> py_eq_int (dict_get r ''status'' JNull) 200 \<or>
    \<not> py_eq_str (dict_get r ''info'' JNull) ''success'' \<or>
    \<not> dict_has r ''data'' \<longrightarrow> extract_live_data (JDict r) = Inr []) \<and>
   (is_api_success (JDict r) = Inr True \<and> dict_get r ''data'' (JList []) = JList [] \<longrightarrow>
      extract_live_data (JDict r) = Inr []) \<and>
   extract_live_data (JDict [(''status'', JNum (PInt 500))]) = Inr [] \<and>
   extract_live_data (JDict [(''status'', JNum (PInt 200)), (''info'', JStr ''fail'')]) = Inr [] \<and>
   extract_live_data (JDict [(''status'', JNum (PInt 200)), (''info'', JStr ''success''),
                             (''data'', JList [])]) = Inr []"
proof -
  have a: "\<not> py_eq_int (dict_get r ''status'' JNull) 200 \<or>
      \<not> py_eq_str (dict_get r ''info'' JNull) ''success'' \<or>
      \<not> dict_has r ''data'' \<longrightarrow> extract_live_data (JDict r) = Inr []"
    by (auto intro!: extract_live_data_not_success)
  have b: "is_api_success (JDict r) = Inr True \<and> dict_get r ''data'' (JList []) = JList [] \<longrightarrow>
      extract_live_data (JDict r) = Inr []"
    using extract_live_data_no_devices [of r] by simp
  have c: "extract_live_data (JDict [(''status'', JNum (PInt 500))]) = Inr []"
    by (rule extract_live_data_not_success) (simp add: dict_get_def)
  have d: "extract_live_data (JDict [(''status'', JNum (PInt 200)), (''info'', JStr ''fail'')])
      = Inr []"
    by (rule extract_live_data_not_success) (simp add: dict_get_def)
  have e: "extract_live_data (JDict [(''status'', JNum (PInt 200)), (''info'', JStr ''success''),
                             (''data'', JList [])]) = Inr []"
    by (rule extract_live_data_no_devices) (simp_all add: dict_get_def dict_has_def)
  show ?thesis using a b c d e by blast
qed

theorem extract_live_data_empty_witness:
  "\<not> py_eq_int (dict_get [(''status'', JNum (PInt 500))] ''status'' JNull) 200 \<and>
   extract_live_data (JDict [(''status'', JNum (PInt 500))]) = Inr [] \<and>
   is_api_success (JDict [(''status'', JNum (PFloat (Finite 200))), (''info'', JStr ''success''),
                          (''data'', JList [])]) = Inr True \<and>
   dict_get [(''status'', JNum (PFloat (Finite 200))), (''info'', JStr ''success''),
             (''data'', JList [])] ''data'' (JList []) = JList [] \<and>
   extract_live_data (JDict [(''status'', JNum (PFloat (Finite 200))), (''info'', JStr ''success''),
                             (''data'', JList [])]) = Inr []"
proof -
  have a: "\<not> py_eq_int (dict_get [(''status'', JNum (PInt 500))] ''status'' JNull) 200"
    by (simp add: dict_get_def)
  have b: "is_api_success (JDict [(''status'', JNum (PFloat (Finite 200))),
      (''info'', JStr ''success''), (''data'', JList [])]) = Inr True"
    by (simp add: dict_get_def dict_has_def)
  have c: "dict_get [(''status'', JNum (PFloat (Finite 200))), (''info'', JStr ''success''),
             (''data'', JList [])] ''data'' (JList []) = JList []"
    by (simp add: dict_get_def)
  show ?thesis
    using a b c extract_live_data_empty [of "[(''status'', JNum (PInt 500))]"]
      extract_live_data_empty [of "[(''status'', JNum (PFloat (Finite 200))),
        (''info'', JStr ''success''), (''data'', JList [])]"]
    by blast
qed

subsection \<open>Coercions\<close>



lemma safe_float_zero: "safe_float (JNum (PInt 0)) d = Inr (PFloat (Finite 0))"
  by (simp add: safe_float_def float_overflow_def)

lemma safe_float_None: "safe_float JNull d = Inr d"
  by (simp add: safe_float_def)

lemma safe_float_not_a_number: "py_float_of_str s = None \<Longrightarrow> safe_float (JStr s) d = Inr d"
  by (simp add: safe_float_def)

lemma safe_float_list_dict: "safe_float (JList xs) d = Inr d" "safe_float (JDict kv) d = Inr d"
  by (simp_all add: safe_float_def)










lemma py_float_of_str_NA: "py_float_of_str ''N/A'' = None"
  by (simp add: py_float_of_str_def strip_def is_space_def lower_def mantissa_def
      is_digit_def digit_val_def nat_of_digits_def round_to_float_def float_overflow_def Let_def)

lemma safe_float_NA: "safe_float (JStr ''N/A'') d = Inr d"
  by (simp add: safe_float_not_a_number py_float_of_str_NA)

subsection \<open>The record of a device\<close>










lemma example_response_selects:
  "is_api_success example_response = Inr True"
  "\<exists>r. example_response = JDict r \<and> truthy (dict_get r ''data'' (JList [])) \<and>
       first_device (dict_get r ''data'' (JList [])) = Inr (JDict example_device)"
  by (simp_all add: example_response_def dict_get_def dict_has_def)





text \<open>
  C6.  \<open>extract_live_data\<close> is not total.  \<open>safe_float\<close> and \<open>safe_int\<close> catch
  \<open>ValueError\<close> and \<open>TypeError\<close> only: an integer \<open>pac\<close> beyond the range of a
  float makes \<open>float\<close> raise \<open>OverflowError\<close>, and so does an infinite
  \<open>currentState\<close> in \<open>int\<close>; the exception leaves \<open>extract_live_data\<close> and reaches
  the handler of \<open>main\<close>.
\<close>

theorem extract_live_data_overflow:
  "extract_live_data
     (JDict [(''status'', JNum (PInt 200)), (''info'', JStr ''success''),
             (''data'', JList [JDict [(''pac'', JNum (PInt (10 ^ 400)))]])])
     = Inl (OverflowError ''int too large to convert to float'') \<and>
   extract_live_data
     (JDict [(''status'', JNum (PInt 200)), (''info'', JStr ''success''),
             (''data'', JList [JDict [(''currentState'', JNum (PFloat PosInf))]])])
     = Inl (OverflowError ''cannot convert float infinity to integer'') \<and>
   main_try now
     (JDict [(''status'', JNum (PInt 200)), (''info'', JStr ''success''),
             (''data'', JList [JDict [(''pac'', JNum (PInt (10 ^ 400)))]])])
     = Inl (OverflowError ''int too large to convert to float'')"
proof -
  have o: "float_overflow \<le> \<bar>of_int (10 ^ 400)\<bar>"
    by (simp add: float_overflow_def)
  have a: "float_overflow \<le> \<bar>of_int n\<bar> \<Longrightarrow>
    extract_live_data
     (JDict [(''status'', JNum (PInt 200)), (''info'', JStr ''success''),
             (''data'', JList [JDict [(''pac'', JNum (PInt n))]])])
     = Inl (OverflowError ''int too large to convert to float'')" for n
    by (simp add: extract_live_data_def dict_get_def dict_has_def device_record_def
        safe_float_def)
  have b: "extract_live_data
     (JDict [(''status'', JNum (PInt 200)), (''info'', JStr ''success''),
             (''data'', JList [JDict [(''currentState'', JNum (PFloat PosInf))]])])
     = Inl (OverflowError ''cannot convert float infinity to integer'')"
    by (simp add: extract_live_data_def dict_get_def dict_has_def device_record_def
        safe_float_zero safe_int_def)
  have s: "is_api_success
     (JDict [(''status'', JNum (PInt 200)), (''info'', JStr ''success''),
             (''data'', JList [JDict [(''pac'', JNum (PInt n))]])]) = Inr True" for n
    by (simp add: dict_get_def dict_has_def)
  have c: "float_overflow \<le> \<bar>of_int n\<bar> \<Longrightarrow>
    main_try now
     (JDict [(''status'', JNum (PInt 200)), (''info'', JStr ''success''),
             (''data'', JList [JDict [(''pac'', JNum (PInt n))]])])
     = Inl (OverflowError ''int too large to convert to float'')" for n
    unfolding main_try_def s by (simp add: a)
  show ?thesis using a [OF o] b c [OF o] by blast
qed

subsection \<open>Merging into the default output\<close>



















subsection \<open>When \<open>main\<close> prints the output, and when the error object\<close>

















end
